theory Spec2Isabelle
  imports Main "HOL-Library.Word"
begin

section \<open>Go values used by the forecast pipeline\<close>

text \<open>
  A Go pointer \<open>*T\<close> is an option: \<open>None\<close> is \<open>nil\<close>. Dereferencing \<open>nil\<close> panics, so
  a function that dereferences returns an \<open>outcome\<close>: either it returns its Go result
  or it panics.
\<close>

datatype 'a outcome = Return 'a | Panic

text \<open>
  Errors. The service reports typed exceptions; the SDK hands them to the caller wrapped
  in an operation error whose \<open>Unwrap\<close> gives the cause. \<open>errorString\<close> is what
  \<open>errors.New\<close> and \<open>fmt.Errorf\<close> (without \<open>%w\<close>) build.
\<close>

datatype go_error =
    ResourceAlreadyExistsException string
  | ResourceNotFoundException string
  | APIError string string
  | errorString string
  | OperationError string go_error

text \<open>
  \<open>errors.As(err, &exists)\<close> with \<open>exists\<close> of type
  \<open>*types.ResourceAlreadyExistsException\<close>: walk the \<open>Unwrap\<close> chain and stop at the
  first error of that type.
\<close>

fun As_ResourceAlreadyExists :: "go_error \<Rightarrow> bool" where
  "As_ResourceAlreadyExists (ResourceAlreadyExistsException m) = True"
| "As_ResourceAlreadyExists (OperationError opn e) = As_ResourceAlreadyExists e"
| "As_ResourceAlreadyExists e = False"

fun As_ResourceNotFound :: "go_error \<Rightarrow> bool" where
  "As_ResourceNotFound (ResourceNotFoundException m) = True"
| "As_ResourceNotFound (OperationError opn e) = As_ResourceNotFound e"
| "As_ResourceNotFound e = False"

text \<open>\<open>strings.HasPrefix(s, prefix)\<close>: \<open>len(s) >= len(prefix) && s[:len(prefix)] == prefix\<close>.\<close>

definition HasPrefix :: "string \<Rightarrow> string \<Rightarrow> bool" where
  "HasPrefix s pre = (length pre \<le> length s \<and> take (length pre) s = pre)"

text \<open>The verb \<open>%d\<close> of \<open>fmt\<close> on an \<open>int64\<close>: signed decimal.\<close>

fun decimal :: "nat \<Rightarrow> string" where
  "decimal n =
     (if n < 10 then [char_of (48 + n)]
      else decimal (n div 10) @ [char_of (48 + n mod 10)])"

declare decimal.simps [simp del]

definition fmt_d :: "64 word \<Rightarrow> string" where
  "fmt_d w = (if sint w < 0 then CHR ''-'' # decimal (nat (- sint w)) else decimal (nat (sint w)))"

section \<open>The Forecast receiver and what a run leaves behind\<close>

record GetCallerIdentityOutput =
  Account :: "string option"
  Arn :: "string option"
  UserId :: "string option"

text \<open>
  The two service clients of the struct are not data: what they answer is an input of
  each operation below.
\<close>

record Forecast =
  region :: string
  caller :: "GetCallerIdentityOutput option"

text \<open>
  The effects of a run: how many times a poll function \<open>h\<close> was invoked and the lines
  handed to \<open>log.Printf\<close> and \<open>log.Println\<close> (without the time stamp the logger puts
  in front and the newline it puts at the end).
\<close>

record trace =
  polls :: nat
  logged :: "string list"

definition log_Printf :: "string \<Rightarrow> trace \<Rightarrow> trace" where
  "log_Printf line t = t\<lparr>logged := logged t @ [line]\<rparr>"

definition log_Println :: "string \<Rightarrow> trace \<Rightarrow> trace" where
  "log_Println line t = t\<lparr>logged := logged t @ [line]\<rparr>"

definition t0 :: trace where
  "t0 = \<lparr>polls = 0, logged = []\<rparr>"

section \<open>skipIfAlreadyExists\<close>

text \<open>
  \<open>h\<close> is called once, first; the pair is what it returned. The skip branch dereferences
  \<open>f.caller\<close> and \<open>f.caller.Account\<close>.
\<close>

definition skipIfAlreadyExists ::
  "Forecast \<Rightarrow> string \<Rightarrow> string \<Rightarrow> string option \<times> go_error option \<Rightarrow> trace
     \<Rightarrow> (string option \<times> go_error option) outcome \<times> trace" where
  "skipIfAlreadyExists f resource name h t =
     (case h of
        (arn, Some err) \<Rightarrow>
          if As_ResourceAlreadyExists err then
            (let t1 = log_Printf (''skip to create '' @ resource @ '' already exists'') t in
             case caller f of
               None \<Rightarrow> (Panic, t1)
             | Some c \<Rightarrow>
                 (case Account c of
                    None \<Rightarrow> (Panic, t1)
                  | Some account \<Rightarrow>
                      (Return (Some (''arn:aws:forecast:'' @ region f @ '':'' @ account @ '':''
                                      @ resource @ ''/'' @ name), None), t1)))
          else (Return (None, Some err), t)
      | (arn, None) \<Rightarrow> (Return (arn, None), t))"

section \<open>The waiters\<close>

text \<open>
  Each round of the loop is one \<open>select\<close>: either the ticker fired, and \<open>h\<close> is invoked
  and returns the value the event carries, or the context is done. The list is what the
  \<open>select\<close> received, in order; when it is used up the waiter is still blocked in
  \<open>select\<close> and has not returned: \<open>None\<close>.
\<close>

datatype 'r event = Tick 'r | CtxDone

type_synonym active_poll = "string option \<times> 64 word option \<times> go_error option"

type_synonym deleted_poll = "string option \<times> go_error option"

fun waitForActive ::
  "string \<Rightarrow> active_poll event list \<Rightarrow> trace \<Rightarrow> go_error option outcome option \<times> trace" where
  "waitForActive name [] t = (None, t)"
| "waitForActive name (CtxDone # evs) t = (Some (Return None), t)"
| "waitForActive name (Tick (status, remainingMin, err) # evs) t =
     (let t1 = t\<lparr>polls := Suc (polls t)\<rparr> in
      case err of
        Some e \<Rightarrow> (Some (Return (Some e)), t1)
      | None \<Rightarrow>
          (case status of
             None \<Rightarrow> (Some Panic, t1)
           | Some s \<Rightarrow>
               if s = ''ACTIVE'' then (Some (Return None), t1)
               else if \<not> HasPrefix s ''CREATE'' then
                 (Some (Return (Some (errorString (name @ '' is not creating but '' @ s)))), t1)
               else if s = ''CREATE_FAILED'' then
                 (Some (Return (Some (errorString ''creating is failed''))), t1)
               else
                 waitForActive name evs
                   (case remainingMin of
                      None \<Rightarrow> t1
                    | Some r \<Rightarrow>
                        log_Printf (name @ [CHR 0x27] @ ''s status is '' @ s @ ''. remaining ''
                                      @ fmt_d r @ '' mins'') t1)))"

fun waitForDeleted ::
  "string \<Rightarrow> deleted_poll event list \<Rightarrow> trace \<Rightarrow> go_error option outcome option \<times> trace" where
  "waitForDeleted name [] t = (None, t)"
| "waitForDeleted name (CtxDone # evs) t = (Some (Return None), t)"
| "waitForDeleted name (Tick (status, err) # evs) t =
     (let t1 = t\<lparr>polls := Suc (polls t)\<rparr> in
      case err of
        Some e \<Rightarrow>
          if As_ResourceNotFound e then (Some (Return None), t1)
          else (Some (Return (Some e)), t1)
      | None \<Rightarrow>
          (case status of
             None \<Rightarrow> (Some Panic, t1)
           | Some s \<Rightarrow>
               if \<not> HasPrefix s ''DELETE'' then
                 (Some (Return (Some (errorString (name @ '' is not deleting but '' @ s)))), t1)
               else if s = ''DELTE_FAILED'' then
                 (Some (Return (Some (errorString ''deleting is failed''))), t1)
               else
                 waitForDeleted name evs
                   (log_Printf (name @ [CHR 0x27] @ ''s status is '' @ s) t1)))"

section \<open>The stages\<close>

text \<open>
  What the service answers is an input. A create call answers with an error or with an
  output, of which only the ARN field is read; a describe call answers with an error or
  with the \<open>Status\<close> and \<open>EstimatedTimeRemainingInMinutes\<close> fields (the export job's
  output has no estimate, and the deletion polls read \<open>Status\<close> only); of a delete call
  only the error is kept. Arguments that go nowhere but into a request (\<open>datasetArn\<close>,
  \<open>src\<close>, \<open>dest\<close>, ...) are left out.
\<close>

type_synonym create_resp = "go_error + string option"

type_synonym describe_resp = "go_error + string option \<times> 64 word option"

type_synonym status_resp = "go_error + string option"

type_synonym create_result = "(string option \<times> go_error option) outcome option \<times> trace"

text \<open>The closures handed to the helpers.\<close>

fun create_h :: "create_resp \<Rightarrow> string option \<times> go_error option" where
  "create_h (Inl err) = (None, Some err)"
| "create_h (Inr arn) = (arn, None)"

fun describe_h :: "describe_resp \<Rightarrow> active_poll" where
  "describe_h (Inl err) = (None, None, Some err)"
| "describe_h (Inr (status, remaining)) = (status, remaining, None)"

fun describe_export_h :: "status_resp \<Rightarrow> active_poll" where
  "describe_export_h (Inl err) = (None, None, Some err)"
| "describe_export_h (Inr status) = (status, Some 0, None)"

fun describe_deleted_h :: "status_resp \<Rightarrow> deleted_poll" where
  "describe_deleted_h (Inl err) = (None, Some err)"
| "describe_deleted_h (Inr status) = (status, None)"

definition CreateDataset :: "Forecast \<Rightarrow> string \<Rightarrow> create_resp \<Rightarrow> trace \<Rightarrow> create_result" where
  "CreateDataset f name created t =
     (case skipIfAlreadyExists f ''dataset'' name (create_h created) t of
        (Panic, t1) \<Rightarrow> (Some Panic, t1)
      | (Return r, t1) \<Rightarrow> (Some (Return r), t1))"

definition CreateDatasetImportJob ::
  "Forecast \<Rightarrow> string \<Rightarrow> string \<Rightarrow> create_resp \<Rightarrow> describe_resp event list \<Rightarrow> trace
     \<Rightarrow> create_result" where
  "CreateDatasetImportJob f name datasetName created evs t =
     (case skipIfAlreadyExists f (''dataset-import-job/'' @ datasetName) name (create_h created) t of
        (Panic, t1) \<Rightarrow> (Some Panic, t1)
      | (Return (arn, err), t1) \<Rightarrow>
          if err \<noteq> None then (Some (Return (None, err)), t1)
          else
            (case waitForActive ''dataset-import-job'' (map (map_event describe_h) evs) t1 of
               (None, t2) \<Rightarrow> (None, t2)
             | (Some Panic, t2) \<Rightarrow> (Some Panic, t2)
             | (Some (Return err'), t2) \<Rightarrow>
                 if err' \<noteq> None then (Some (Return (None, err')), t2)
                 else (Some (Return (arn, None)), t2)))"

definition CreateDatasetGroup :: "Forecast \<Rightarrow> string \<Rightarrow> create_resp \<Rightarrow> trace \<Rightarrow> create_result" where
  "CreateDatasetGroup f name created t =
     (case skipIfAlreadyExists f ''dataset-group'' name (create_h created) t of
        (Panic, t1) \<Rightarrow> (Some Panic, t1)
      | (Return r, t1) \<Rightarrow> (Some (Return r), t1))"

text \<open>The last line of \<open>CreatePredictor\<close> is \<open>return arn, err\<close>, with the outer \<open>err\<close>.\<close>

definition CreatePredictor ::
  "Forecast \<Rightarrow> string \<Rightarrow> create_resp \<Rightarrow> describe_resp event list \<Rightarrow> trace \<Rightarrow> create_result" where
  "CreatePredictor f name created evs t =
     (case skipIfAlreadyExists f ''predictor'' name (create_h created) t of
        (Panic, t1) \<Rightarrow> (Some Panic, t1)
      | (Return (arn, err), t1) \<Rightarrow>
          if err \<noteq> None then (Some (Return (None, err)), t1)
          else
            (case waitForActive ''predictor'' (map (map_event describe_h) evs) t1 of
               (None, t2) \<Rightarrow> (None, t2)
             | (Some Panic, t2) \<Rightarrow> (Some Panic, t2)
             | (Some (Return err'), t2) \<Rightarrow>
                 if err' \<noteq> None then (Some (Return (None, err')), t2)
                 else (Some (Return (arn, err)), t2)))"

definition CreateForecast ::
  "Forecast \<Rightarrow> string \<Rightarrow> create_resp \<Rightarrow> describe_resp event list \<Rightarrow> trace \<Rightarrow> create_result" where
  "CreateForecast f name created evs t =
     (case skipIfAlreadyExists f ''forecast'' name (create_h created) t of
        (Panic, t1) \<Rightarrow> (Some Panic, t1)
      | (Return (arn, err), t1) \<Rightarrow>
          if err \<noteq> None then (Some (Return (None, err)), t1)
          else
            (case waitForActive ''forecast'' (map (map_event describe_h) evs) t1 of
               (None, t2) \<Rightarrow> (None, t2)
             | (Some Panic, t2) \<Rightarrow> (Some Panic, t2)
             | (Some (Return err'), t2) \<Rightarrow>
                 if err' \<noteq> None then (Some (Return (None, err')), t2)
                 else (Some (Return (arn, None)), t2)))"

text \<open>
  Here the source has \<open>if f.waitForActive(...); err != nil\<close>: the call is a statement of
  its own, its result is dropped, and the \<open>err\<close> tested is the outer one.
\<close>

definition CreateForecastExportJob ::
  "Forecast \<Rightarrow> string \<Rightarrow> string \<Rightarrow> create_resp \<Rightarrow> status_resp event list \<Rightarrow> trace
     \<Rightarrow> create_result" where
  "CreateForecastExportJob f name forecastName created evs t =
     (case skipIfAlreadyExists f (''forecast-export-job/'' @ forecastName) name (create_h created) t of
        (Panic, t1) \<Rightarrow> (Some Panic, t1)
      | (Return (arn, err), t1) \<Rightarrow>
          if err \<noteq> None then (Some (Return (None, err)), t1)
          else
            (case waitForActive ''forecast-export-job'' (map (map_event describe_export_h) evs) t1 of
               (None, t2) \<Rightarrow> (None, t2)
             | (Some Panic, t2) \<Rightarrow> (Some Panic, t2)
             | (Some (Return err'), t2) \<Rightarrow>
                 if err \<noteq> None then (Some (Return (None, err)), t2)
                 else (Some (Return (arn, None)), t2)))"

type_synonym delete_result = "go_error option outcome option \<times> trace"

definition DeleteForecastExportJob ::
  "go_error option \<Rightarrow> status_resp event list \<Rightarrow> trace \<Rightarrow> delete_result" where
  "DeleteForecastExportJob deleted evs t =
     (case deleted of
        Some err \<Rightarrow> (Some (Return (Some err)), t)
      | None \<Rightarrow> waitForDeleted ''forecast-export-job'' (map (map_event describe_deleted_h) evs) t)"

definition DeleteForecast ::
  "go_error option \<Rightarrow> status_resp event list \<Rightarrow> trace \<Rightarrow> delete_result" where
  "DeleteForecast deleted evs t =
     (case deleted of
        Some err \<Rightarrow> (Some (Return (Some err)), t)
      | None \<Rightarrow> waitForDeleted ''forecast'' (map (map_event describe_deleted_h) evs) t)"

definition DeletePredictor ::
  "go_error option \<Rightarrow> status_resp event list \<Rightarrow> trace \<Rightarrow> delete_result" where
  "DeletePredictor deleted evs t =
     (case deleted of
        Some err \<Rightarrow> (Some (Return (Some err)), t)
      | None \<Rightarrow> waitForDeleted ''predictor'' (map (map_event describe_deleted_h) evs) t)"

definition DeleteDatasetGroup :: "go_error option \<Rightarrow> trace \<Rightarrow> delete_result" where
  "DeleteDatasetGroup deleted t =
     (case deleted of
        Some err \<Rightarrow> (Some (Return (Some err)), t)
      | None \<Rightarrow> (Some (Return None), t))"

definition DeleteDatasetImportJob ::
  "go_error option \<Rightarrow> status_resp event list \<Rightarrow> trace \<Rightarrow> delete_result" where
  "DeleteDatasetImportJob deleted evs t =
     (case deleted of
        Some err \<Rightarrow> (Some (Return (Some err)), t)
      | None \<Rightarrow> waitForDeleted ''dataset-import-job'' (map (map_event describe_deleted_h) evs) t)"

definition DeleteDataset :: "go_error option \<Rightarrow> trace \<Rightarrow> delete_result" where
  "DeleteDataset deleted t =
     (case deleted of
        Some err \<Rightarrow> (Some (Return (Some err)), t)
      | None \<Rightarrow> (Some (Return None), t))"

section \<open>main\<close>

text \<open>
  Everything the process receives from outside: the configuration, the caller identity
  and the answers of the service, one per create and delete call and one per poll. The
  context of \<open>main\<close> is \<open>context.Background()\<close>, which is never done, so every round of
  a waiter is a tick.
\<close>

record responses =
  LoadDefaultConfig_r :: "go_error + string"
  GetCallerIdentity_r :: "go_error + GetCallerIdentityOutput"
  CreateDataset_r :: create_resp
  CreateDatasetImportJob_r :: create_resp
  DescribeDatasetImportJob_r :: "describe_resp list"
  CreateDatasetGroup_r :: create_resp
  CreatePredictor_r :: create_resp
  DescribePredictor_r :: "describe_resp list"
  CreateForecast_r :: create_resp
  DescribeForecast_r :: "describe_resp list"
  CreateForecastExportJob_r :: create_resp
  DescribeForecastExportJob_r :: "status_resp list"
  DeleteForecastExportJob_r :: "go_error option"
  DescribeForecastExportJob_d :: "status_resp list"
  DeleteForecast_r :: "go_error option"
  DescribeForecast_d :: "status_resp list"
  DeletePredictor_r :: "go_error option"
  DescribePredictor_d :: "status_resp list"
  DeleteDatasetGroup_r :: "go_error option"
  DeleteDatasetImportJob_r :: "go_error option"
  DescribeDatasetImportJob_d :: "status_resp list"
  DeleteDataset_r :: "go_error option"

text \<open>
  How the process ends: \<open>log.Fatal\<close> with an error (the line it prints is rendered by
  the error's own \<open>Error\<close> method and is not added to \<open>logged\<close>), a normal return of
  \<open>main\<close>, a panic, or not at all within the polls given (\<open>Waiting\<close>).
\<close>

datatype process = Fatal go_error | Returned | Crashed | Waiting

fun after_create ::
  "create_result \<Rightarrow> (string option \<Rightarrow> trace \<Rightarrow> process \<times> trace) \<Rightarrow> process \<times> trace" where
  "after_create (None, t) k = (Waiting, t)"
| "after_create (Some Panic, t) k = (Crashed, t)"
| "after_create (Some (Return (arn, Some err)), t) k = (Fatal err, t)"
| "after_create (Some (Return (arn, None)), t) k = k arn t"

fun after_delete :: "delete_result \<Rightarrow> (trace \<Rightarrow> process \<times> trace) \<Rightarrow> process \<times> trace" where
  "after_delete (None, t) k = (Waiting, t)"
| "after_delete (Some Panic, t) k = (Crashed, t)"
| "after_delete (Some (Return (Some err)), t) k = (Fatal err, t)"
| "after_delete (Some (Return None), t) k = k t"

text \<open>\<open>*p\<close> for a pointer \<open>p\<close> in an argument list.\<close>

fun deref :: "'a option \<Rightarrow> trace \<Rightarrow> (trace \<Rightarrow> process \<times> trace) \<Rightarrow> process \<times> trace" where
  "deref None t k = (Crashed, t)"
| "deref (Some a) t k = k t"

definition main :: "responses \<Rightarrow> process \<times> trace" where
  "main r =
     (case LoadDefaultConfig_r r of
        Inl err \<Rightarrow> (Fatal err, t0)
      | Inr cfg_Region \<Rightarrow>
     (case GetCallerIdentity_r r of
        Inl err \<Rightarrow> (Fatal err, t0)
      | Inr identity \<Rightarrow>
     (let f = \<lparr>region = cfg_Region, caller = Some identity\<rparr> in
      after_create
        (CreateDataset f ''electricityusagedata'' (CreateDataset_r r)
           (log_Println ''create dataset'' t0))
        (\<lambda>datasetArn t.
      deref datasetArn (log_Println ''create importDatasetJob'' t) (\<lambda>t.
      after_create
        (CreateDatasetImportJob f ''import_electricityusagedata'' ''electricityusagedata''
           (CreateDatasetImportJob_r r) (map Tick (DescribeDatasetImportJob_r r)) t)
        (\<lambda>datasetImportJobArn t.
      after_create
        (CreateDatasetGroup f ''electricityusagedatagroup'' (CreateDatasetGroup_r r)
           (log_Println ''create datasetGroup'' t))
        (\<lambda>datasetGroupArn t.
      deref datasetGroupArn (log_Println ''create predictor'' t) (\<lambda>t.
      after_create
        (CreatePredictor f ''electricityusagedata_predictor''
           (CreatePredictor_r r) (map Tick (DescribePredictor_r r)) t)
        (\<lambda>predictorArn t.
      deref predictorArn (log_Println ''create forecast'' t) (\<lambda>t.
      after_create
        (CreateForecast f ''electricityusagedata_forecast''
           (CreateForecast_r r) (map Tick (DescribeForecast_r r)) t)
        (\<lambda>forecastArn t.
      deref forecastArn (log_Println ''create forecastExportJob'' t) (\<lambda>t.
      after_create
        (CreateForecastExportJob f ''export_electricityusagedata_forecast''
           ''electricityusagedata_forecast''
           (CreateForecastExportJob_r r) (map Tick (DescribeForecastExportJob_r r)) t)
        (\<lambda>forecastExportJobArn t.
      deref forecastExportJobArn (log_Println ''clean up'' t) (\<lambda>t.
      after_delete
        (DeleteForecastExportJob (DeleteForecastExportJob_r r)
           (map Tick (DescribeForecastExportJob_d r)) t) (\<lambda>t.
      after_delete
        (DeleteForecast (DeleteForecast_r r) (map Tick (DescribeForecast_d r)) t) (\<lambda>t.
      after_delete
        (DeletePredictor (DeletePredictor_r r) (map Tick (DescribePredictor_d r)) t) (\<lambda>t.
      after_delete (DeleteDatasetGroup (DeleteDatasetGroup_r r) t) (\<lambda>t.
      deref datasetImportJobArn t (\<lambda>t.
      after_delete
        (DeleteDatasetImportJob (DeleteDatasetImportJob_r r)
           (map Tick (DescribeDatasetImportJob_d r)) t) (\<lambda>t.
      after_delete (DeleteDataset (DeleteDataset_r r) t) (\<lambda>t.
      (Returned, t))))))))))))))))))))))"

text \<open>
  A run in which every call succeeds, every created resource is \<open>ACTIVE\<close> at its first
  poll and every deleted resource is gone at its first poll.
\<close>

definition all_succeed :: responses where
  "all_succeed = \<lparr>
     LoadDefaultConfig_r = Inr ''us-east-1'',
     GetCallerIdentity_r = Inr \<lparr>Account = Some ''111122223333'', Arn = None, UserId = None\<rparr>,
     CreateDataset_r = Inr (Some ''arn:dataset''),
     CreateDatasetImportJob_r = Inr (Some ''arn:import''),
     DescribeDatasetImportJob_r = [Inr (Some ''ACTIVE'', None)],
     CreateDatasetGroup_r = Inr (Some ''arn:group''),
     CreatePredictor_r = Inr (Some ''arn:predictor''),
     DescribePredictor_r = [Inr (Some ''ACTIVE'', None)],
     CreateForecast_r = Inr (Some ''arn:forecast''),
     DescribeForecast_r = [Inr (Some ''ACTIVE'', None)],
     CreateForecastExportJob_r = Inr (Some ''arn:export''),
     DescribeForecastExportJob_r = [Inr (Some ''ACTIVE'')],
     DeleteForecastExportJob_r = None,
     DescribeForecastExportJob_d = [Inl (ResourceNotFoundException ''gone'')],
     DeleteForecast_r = None,
     DescribeForecast_d = [Inl (ResourceNotFoundException ''gone'')],
     DeletePredictor_r = None,
     DescribePredictor_d = [Inl (ResourceNotFoundException ''gone'')],
     DeleteDatasetGroup_r = None,
     DeleteDatasetImportJob_r = None,
     DescribeDatasetImportJob_d = [Inl (ResourceNotFoundException ''gone'')],
     DeleteDataset_r = None\<rparr>"

section \<open>Predicates used in the statements\<close>

text \<open>
  A round after which the active-state waiter goes on polling: the poll returned no error
  and a status with the prefix \<open>CREATE\<close> other than \<open>CREATE_FAILED\<close>.
\<close>

fun creating :: "active_poll event \<Rightarrow> bool" where
  "creating (Tick (Some s, remainingMin, None)) =
     (HasPrefix s ''CREATE'' \<and> s \<noteq> ''CREATE_FAILED'')"
| "creating ev = False"

text \<open>A round in which the poll reports \<open>ACTIVE\<close>.\<close>

fun reports_ACTIVE :: "active_poll event \<Rightarrow> bool" where
  "reports_ACTIVE (Tick (Some s, remainingMin, None)) = (s = ''ACTIVE'')"
| "reports_ACTIVE ev = False"

text \<open>A round after which the deletion waiter goes on polling.\<close>

fun deleting :: "deleted_poll event \<Rightarrow> bool" where
  "deleting (Tick (Some s, None)) = HasPrefix s ''DELETE''"
| "deleting ev = False"

text \<open>The poll function returns a status whenever it returns no error.\<close>

fun status_given :: "active_poll event \<Rightarrow> bool" where
  "status_given (Tick (status, remainingMin, err)) = (err = None \<longrightarrow> status \<noteq> None)"
| "status_given CtxDone = True"

fun status_given_d :: "deleted_poll event \<Rightarrow> bool" where
  "status_given_d (Tick (status, err)) = (err = None \<longrightarrow> status \<noteq> None)"
| "status_given_d CtxDone = True"

section \<open>Facts about the helpers\<close>

lemma HasPrefix_CREATE_not_ACTIVE: "HasPrefix s ''CREATE'' \<Longrightarrow> s \<noteq> ''ACTIVE''"
  by (auto simp: HasPrefix_def)

lemma HasPrefix_DELETE_not_DELTE_FAILED: "HasPrefix s ''DELETE'' \<Longrightarrow> s \<noteq> ''DELTE_FAILED''"
  by (auto simp: HasPrefix_def)

lemma HasPrefix_DELETE_FAILED: "HasPrefix ''DELETE_FAILED'' ''DELETE''"
  by (simp add: HasPrefix_def)

lemma waitForActive_blocked_iff:
  "fst (waitForActive name evs t) = None \<longleftrightarrow> list_all creating evs"
proof (induction name evs t rule: waitForActive.induct)
  case (3 name status remainingMin err evs t)
  show ?case
  proof (cases err)
    case (Some e)
    then show ?thesis by (cases status) (simp_all add: Let_def)
  next
    case None
    show ?thesis
    proof (cases status)
      case None
      with \<open>err = None\<close> show ?thesis by (simp add: Let_def)
    next
      case (Some s)
      with \<open>err = None\<close> 3 show ?thesis
        by (auto simp: Let_def HasPrefix_CREATE_not_ACTIVE)
    qed
  qed
qed simp_all

lemma waitForActive_append:
  "fst (waitForActive name pre t) = None \<Longrightarrow>
   waitForActive name (pre @ evs) t = waitForActive name evs (snd (waitForActive name pre t))"
proof (induction name pre t rule: waitForActive.induct)
  case (3 name status remainingMin err evs t)
  then show ?case
    by (auto simp: Let_def split: option.splits if_splits)
qed simp_all

lemma waitForActive_polls:
  "fst (waitForActive name pre t) = None \<Longrightarrow>
   polls (snd (waitForActive name pre t)) = polls t + length pre"
proof (induction name pre t rule: waitForActive.induct)
  case (3 name status remainingMin err evs t)
  then show ?case
    by (auto simp: Let_def log_Printf_def split: option.splits if_splits)
qed simp_all

lemma waitForDeleted_blocked_iff:
  "fst (waitForDeleted name evs t) = None \<longleftrightarrow> list_all deleting evs"
proof (induction name evs t rule: waitForDeleted.induct)
  case (3 name status err evs t)
  show ?case
  proof (cases err)
    case (Some e)
    then show ?thesis by (cases status) (simp_all add: Let_def)
  next
    case None
    show ?thesis
    proof (cases status)
      case None
      with \<open>err = None\<close> show ?thesis by (simp add: Let_def)
    next
      case (Some s)
      with \<open>err = None\<close> 3 show ?thesis
        by (auto simp: Let_def HasPrefix_DELETE_not_DELTE_FAILED)
    qed
  qed
qed simp_all

lemma waitForDeleted_append:
  "fst (waitForDeleted name pre t) = None \<Longrightarrow>
   waitForDeleted name (pre @ evs) t = waitForDeleted name evs (snd (waitForDeleted name pre t))"
proof (induction name pre t rule: waitForDeleted.induct)
  case (3 name status err evs t)
  then show ?case
    by (auto simp: Let_def split: option.splits if_splits)
qed simp_all

lemma waitForDeleted_polls:
  "fst (waitForDeleted name pre t) = None \<Longrightarrow>
   polls (snd (waitForDeleted name pre t)) = polls t + length pre"
proof (induction name pre t rule: waitForDeleted.induct)
  case (3 name status err evs t)
  then show ?case
    by (auto simp: Let_def log_Printf_def split: option.splits if_splits)
qed simp_all

lemma waitForActive_no_Panic:
  "list_all status_given evs \<Longrightarrow> fst (waitForActive name evs t) \<noteq> Some Panic"
proof (induction name evs t rule: waitForActive.induct)
  case (3 name status remainingMin err evs t)
  then show ?case
    by (auto simp: Let_def split: option.splits)
qed simp_all

lemma waitForDeleted_no_Panic:
  "list_all status_given_d evs \<Longrightarrow> fst (waitForDeleted name evs t) \<noteq> Some Panic"
proof (induction name evs t rule: waitForDeleted.induct)
  case (3 name status err evs t)
  then show ?case
    by (auto simp: Let_def split: option.splits)
qed simp_all

lemma waitForActive_first_round:
  "\<not> creating ev \<Longrightarrow> fst (waitForActive name (ev # evs) t) = Some (Return None) \<Longrightarrow>
   reports_ACTIVE ev \<or> ev = CtxDone"
proof (cases ev)
  case CtxDone
  then show ?thesis by simp
next
  case (Tick p)
  obtain status remainingMin err where p: "p = (status, remainingMin, err)"
    by (cases p)
  assume "\<not> creating ev" "fst (waitForActive name (ev # evs) t) = Some (Return None)"
  with Tick p show ?thesis
    by (cases status; cases err) (auto simp: Let_def split: if_splits)
qed

lemma waitForActive_success_cases:
  "fst (waitForActive name evs t) = Some (Return None) \<Longrightarrow>
   \<exists>pre e rest. evs = pre @ e # rest \<and> list_all creating pre \<and> (reports_ACTIVE e \<or> e = CtxDone)"
proof (induction evs arbitrary: t)
  case Nil
  then show ?case by simp
next
  case (Cons ev evs)
  show ?case
  proof (cases "creating ev")
    case False
    from False Cons.prems have "reports_ACTIVE ev \<or> ev = CtxDone"
      by (rule waitForActive_first_round)
    then have "ev # evs = [] @ ev # evs \<and> list_all creating [] \<and> (reports_ACTIVE ev \<or> ev = CtxDone)"
      by simp
    then show ?thesis by blast
  next
    case True
    then have "fst (waitForActive name [ev] t) = None"
      by (simp add: waitForActive_blocked_iff)
    from waitForActive_append[OF this, of evs] Cons.prems
    have "fst (waitForActive name evs (snd (waitForActive name [ev] t))) = Some (Return None)"
      by simp
    from Cons.IH[OF this]
    obtain pre e rest where "evs = pre @ e # rest" "list_all creating pre" "reports_ACTIVE e \<or> e = CtxDone"
      by blast
    with True have "ev # evs = (ev # pre) @ e # rest \<and> list_all creating (ev # pre) \<and> (reports_ACTIVE e \<or> e = CtxDone)"
      by simp
    then show ?thesis by blast
  qed
qed

lemma waitForActive_success_intro:
  assumes "list_all creating pre" and "reports_ACTIVE e \<or> e = CtxDone"
  shows "fst (waitForActive name (pre @ e # rest) t) = Some (Return None)"
proof -
  from assms(1) have "fst (waitForActive name pre t) = None"
    by (simp add: waitForActive_blocked_iff)
  then have "waitForActive name (pre @ e # rest) t
      = waitForActive name (e # rest) (snd (waitForActive name pre t))"
    by (rule waitForActive_append)
  moreover have "fst (waitForActive name (e # rest) t') = Some (Return None)" for t'
    using assms(2) by (cases e rule: reports_ACTIVE.cases) (simp_all add: Let_def)
  ultimately show ?thesis by simp
qed

section \<open>The stages and the waiter's result\<close>

lemma create_error_returned_by_stage:
  assumes "\<not> As_ResourceAlreadyExists e"
  shows "CreateDataset f name (Inl e) t = (Some (Return (None, Some e)), t)"
    and "CreateDatasetImportJob f name datasetName (Inl e) evs t = (Some (Return (None, Some e)), t)"
    and "CreateDatasetGroup f name (Inl e) t = (Some (Return (None, Some e)), t)"
    and "CreatePredictor f name (Inl e) evs t = (Some (Return (None, Some e)), t)"
    and "CreateForecast f name (Inl e) evs t = (Some (Return (None, Some e)), t)"
    and "CreateForecastExportJob f name forecastName (Inl e) evs' t = (Some (Return (None, Some e)), t)"
  using assms
  by (simp_all add: CreateDataset_def CreateDatasetImportJob_def CreateDatasetGroup_def
        CreatePredictor_def CreateForecast_def CreateForecastExportJob_def skipIfAlreadyExists_def)

lemma delete_error_returned_by_stage:
  "DeleteForecastExportJob (Some e) evs t = (Some (Return (Some e)), t)"
  "DeleteForecast (Some e) evs t = (Some (Return (Some e)), t)"
  "DeletePredictor (Some e) evs t = (Some (Return (Some e)), t)"
  "DeleteDatasetGroup (Some e) t = (Some (Return (Some e)), t)"
  "DeleteDatasetImportJob (Some e) evs t = (Some (Return (Some e)), t)"
  "DeleteDataset (Some e) t = (Some (Return (Some e)), t)"
  by (simp_all add: DeleteForecastExportJob_def DeleteForecast_def DeletePredictor_def
        DeleteDatasetGroup_def DeleteDatasetImportJob_def DeleteDataset_def)

lemma CreateForecast_returns_wait_error:
  assumes "skipIfAlreadyExists f ''forecast'' name (create_h created) t = (Return (arn, None), t1)"
    and "waitForActive ''forecast'' (map (map_event describe_h) evs) t1 = (Some (Return (Some e)), t2)"
  shows "CreateForecast f name created evs t = (Some (Return (None, Some e)), t2)"
  using assms by (simp add: CreateForecast_def)

lemma CreatePredictor_returns_wait_error:
  assumes "skipIfAlreadyExists f ''predictor'' name (create_h created) t = (Return (arn, None), t1)"
    and "waitForActive ''predictor'' (map (map_event describe_h) evs) t1 = (Some (Return (Some e)), t2)"
  shows "CreatePredictor f name created evs t = (Some (Return (None, Some e)), t2)"
  using assms by (simp add: CreatePredictor_def)

lemma CreateDatasetImportJob_returns_wait_error:
  assumes "skipIfAlreadyExists f (''dataset-import-job/'' @ datasetName) name (create_h created) t
             = (Return (arn, None), t1)"
    and "waitForActive ''dataset-import-job'' (map (map_event describe_h) evs) t1
             = (Some (Return (Some e)), t2)"
  shows "CreateDatasetImportJob f name datasetName created evs t = (Some (Return (None, Some e)), t2)"
  using assms by (simp add: CreateDatasetImportJob_def)

lemma CreateForecastExportJob_drops_wait_result:
  assumes "skipIfAlreadyExists f (''forecast-export-job/'' @ forecastName) name (create_h created) t
             = (Return (arn, None), t1)"
    and "waitForActive ''forecast-export-job'' (map (map_event describe_export_h) evs) t1
             = (Some (Return werr), t2)"
  shows "CreateForecastExportJob f name forecastName created evs t = (Some (Return (arn, None)), t2)"
  using assms by (simp add: CreateForecastExportJob_def)


lemma waitForDeleted_DELETE_FAILED_still_polling:
  assumes "fst (waitForDeleted name pre t) = None"
  shows "fst (waitForDeleted name (pre @ [Tick (Some ''DELETE_FAILED'', None)]) t) = None"
  using assms by (simp only: waitForDeleted_blocked_iff) (simp add: HasPrefix_def)

section \<open>Runs of main\<close>

lemmas main_defs =
  main_def all_succeed_def t0_def log_Printf_def log_Println_def
  CreateDataset_def CreateDatasetImportJob_def CreateDatasetGroup_def CreatePredictor_def
  CreateForecast_def CreateForecastExportJob_def
  DeleteForecastExportJob_def DeleteForecast_def DeletePredictor_def DeleteDatasetGroup_def
  DeleteDatasetImportJob_def DeleteDataset_def skipIfAlreadyExists_def Let_def HasPrefix_def

lemma main_all_succeed:
  "main all_succeed =
     (Returned,
      \<lparr>polls = 8,
         logged = [''create dataset'', ''create importDatasetJob'', ''create datasetGroup'',
                   ''create predictor'', ''create forecast'', ''create forecastExportJob'',
                   ''clean up'']\<rparr>)"
  by (simp add: main_defs)

text \<open>A forecast that fails to build ends the process before the export job is created.\<close>

lemma main_forecast_CREATE_FAILED:
  "main (all_succeed\<lparr>DescribeForecast_r := [Inr (Some ''CREATE_FAILED'', None)]\<rparr>) =
     (Fatal (errorString ''creating is failed''),
      \<lparr>polls = 3,
         logged = [''create dataset'', ''create importDatasetJob'', ''create datasetGroup'',
                   ''create predictor'', ''create forecast'']\<rparr>)"
  by (simp add: main_defs)

text \<open>An export job that fails does not: the clean-up runs and \<open>main\<close> returns.\<close>

lemma main_export_job_CREATE_FAILED:
  "main (all_succeed\<lparr>DescribeForecastExportJob_r := [Inr (Some ''CREATE_FAILED'')]\<rparr>) =
     (Returned,
      \<lparr>polls = 8,
         logged = [''create dataset'', ''create importDatasetJob'', ''create datasetGroup'',
                   ''create predictor'', ''create forecast'', ''create forecastExportJob'',
                   ''clean up'']\<rparr>)"
  by (simp add: main_defs)

section \<open>The claims\<close>

text \<open>
  C1. A poll of the deletion waiter that reports \<open>DELETE_FAILED\<close> should make it fail with
  the error \<open>deleting is failed\<close>. The source compares the status with \<open>DELTE_FAILED\<close>,
  which no status with the prefix \<open>DELETE\<close> equals (\<open>HasPrefix_DELETE_not_DELTE_FAILED\<close>):
  on \<open>DELETE_FAILED\<close> the waiter logs the status and goes on polling. Here it polls twice,
  has not returned, and returns \<open>nil\<close> when the context is done afterwards.
\<close>

theorem waitForDeleted_DELETE_FAILED_goes_on:
  "fst (waitForDeleted ''forecast''
          [Tick (Some ''DELETE_FAILED'', None), Tick (Some ''DELETE_FAILED'', None)] t0) = None
   \<and> polls (snd (waitForDeleted ''forecast''
          [Tick (Some ''DELETE_FAILED'', None), Tick (Some ''DELETE_FAILED'', None)] t0)) = 2
   \<and> fst (waitForDeleted ''forecast''
          [Tick (Some ''DELETE_FAILED'', None), Tick (Some ''DELETE_FAILED'', None), CtxDone] t0)
       = Some (Return None)"
  by (simp add: Let_def HasPrefix_def log_Printf_def t0_def)

text \<open>
  C2. A stage that creates and then waits should return the waiter's failure. The export
  job is created, its first poll reports \<open>CREATE_FAILED\<close>, the waiter returns
  \<open>creating is failed\<close>, and \<open>CreateForecastExportJob\<close> returns the ARN and a \<open>nil\<close>
  error; \<open>CreateForecast\<close> on the same answers returns the error.
\<close>

theorem CreateForecastExportJob_CREATE_FAILED:
  "fst (CreateForecastExportJob
          \<lparr>region = ''us-east-1'',
             caller = Some \<lparr>Account = Some ''111122223333'', Arn = None, UserId = None\<rparr>\<rparr>
          ''export_electricityusagedata_forecast'' ''electricityusagedata_forecast''
          (Inr (Some ''arn:export''))
          [Tick (Inr (Some ''CREATE_FAILED''))] t0)
     = Some (Return (Some ''arn:export'', None))
   \<and> fst (CreateForecast
          \<lparr>region = ''us-east-1'',
             caller = Some \<lparr>Account = Some ''111122223333'', Arn = None, UserId = None\<rparr>\<rparr>
          ''electricityusagedata_forecast''
          (Inr (Some ''arn:forecast''))
          [Tick (Inr (Some ''CREATE_FAILED'', None))] t0)
     = Some (Return (None, Some (errorString ''creating is failed'')))"
  by (simp add: CreateForecastExportJob_def CreateForecast_def skipIfAlreadyExists_def
        Let_def HasPrefix_def)

text \<open>
  C3. When the context is done while a waiter is still polling (it has received \<open>pre\<close>
  and not returned), the waiter returns a \<open>nil\<close> error. This holds for the active-state
  waiter and for the deletion waiter.
\<close>

theorem waiters_return_nil_when_cancelled:
  "(fst (waitForActive name pre t) = None \<longrightarrow>
      fst (waitForActive name (pre @ CtxDone # rest) t) = Some (Return None))
   \<and> (fst (waitForDeleted name' pre' t') = None \<longrightarrow>
      fst (waitForDeleted name' (pre' @ CtxDone # rest') t') = Some (Return None))"
  by (simp add: waitForActive_append waitForDeleted_append)

text \<open>Both waiters after one poll that reports a pending status.\<close>

theorem waiters_return_nil_when_cancelled_witness:
  "fst (waitForActive ''predictor'' [Tick (Some ''CREATE_PENDING'', Some 5, None)] t0) = None
   \<and> fst (waitForActive ''predictor''
        ([Tick (Some ''CREATE_PENDING'', Some 5, None)] @ CtxDone # []) t0) = Some (Return None)
   \<and> fst (waitForDeleted ''predictor'' [Tick (Some ''DELETE_PENDING'', None)] t0) = None
   \<and> fst (waitForDeleted ''predictor''
        ([Tick (Some ''DELETE_PENDING'', None)] @ CtxDone # []) t0) = Some (Return None)"
proof -
  have a: "fst (waitForActive ''predictor'' [Tick (Some ''CREATE_PENDING'', Some 5, None)] t0) = None"
    by (simp add: Let_def HasPrefix_def)
  have d: "fst (waitForDeleted ''predictor'' [Tick (Some ''DELETE_PENDING'', None)] t0) = None"
    by (simp add: Let_def HasPrefix_def)
  from a d
    waiters_return_nil_when_cancelled
      [of "''predictor''" "[Tick (Some ''CREATE_PENDING'', Some 5, None)]" t0 "[]"
          "''predictor''" "[Tick (Some ''DELETE_PENDING'', None)]" t0 "[]"]
  show ?thesis by blast
qed

text \<open>
  C4. When the create function fails with an error that is, or wraps, a
  \<open>ResourceAlreadyExistsException\<close>, \<open>skipIfAlreadyExists\<close> returns no error and the
  handle \<open>arn:aws:forecast:<region>:<account>:<resource>/<name>\<close>, whatever handle the
  failed call returned. The caller identity and its account are present, as they are after
  a successful \<open>GetCallerIdentity\<close>.
\<close>

theorem skipIfAlreadyExists_already_exists:
  assumes "As_ResourceAlreadyExists err"
    and "caller f = Some c" and "Account c = Some account"
  shows "fst (skipIfAlreadyExists f resource name (arn, Some err) t)
           = Return (Some (''arn:aws:forecast:'' @ region f @ '':'' @ account @ '':''
                             @ resource @ ''/'' @ name), None)"
  using assms by (simp add: skipIfAlreadyExists_def Let_def)

text \<open>
  The dataset \<open>d1\<close> of account \<open>111122223333\<close> in \<open>us-east-1\<close>.
\<close>

theorem skipIfAlreadyExists_already_exists_witness:
  "As_ResourceAlreadyExists (OperationError ''CreateDataset'' (ResourceAlreadyExistsException ''exists''))
   \<and> fst (skipIfAlreadyExists
        \<lparr>region = ''us-east-1'',
           caller = Some \<lparr>Account = Some ''111122223333'', Arn = None, UserId = None\<rparr>\<rparr>
        ''dataset'' ''d1''
        (None, Some (OperationError ''CreateDataset'' (ResourceAlreadyExistsException ''exists''))) t0)
     = Return (Some ''arn:aws:forecast:us-east-1:111122223333:dataset/d1'', None)"
proof -
  have e: "As_ResourceAlreadyExists
             (OperationError ''CreateDataset'' (ResourceAlreadyExistsException ''exists''))"
    by simp
  have c: "caller \<lparr>region = ''us-east-1'',
             caller = Some \<lparr>Account = Some ''111122223333'', Arn = None, UserId = None\<rparr>\<rparr>
           = Some \<lparr>Account = Some ''111122223333'', Arn = None, UserId = None\<rparr>"
    by simp
  have a: "Account \<lparr>Account = Some ''111122223333'', Arn = None, UserId = None\<rparr>
           = Some ''111122223333''"
    by simp
  from skipIfAlreadyExists_already_exists [OF e c a, of "''dataset''" "''d1''" None t0] e
  show ?thesis by simp
qed

text \<open>
  C5. The active-state waiter returns a \<open>nil\<close> error exactly when, after rounds that all
  report a \<open>CREATE...\<close> status other than \<open>CREATE_FAILED\<close> with no poll error, either a
  poll reports \<open>ACTIVE\<close> or the context is done. For the polls \<open>CREATE_PENDING\<close>,
  \<open>CREATE_IN_PROGRESS\<close>, \<open>ACTIVE\<close> it has not returned after two ticks and returns
  \<open>nil\<close> at the third, having polled three times.
\<close>

theorem waitForActive_success_iff:
  "(fst (waitForActive name evs t) = Some (Return None) \<longleftrightarrow>
      (\<exists>pre e rest. evs = pre @ e # rest \<and> list_all creating pre
                     \<and> (reports_ACTIVE e \<or> e = CtxDone)))
   \<and> fst (waitForActive name
        [Tick (Some ''CREATE_PENDING'', r1, None),
         Tick (Some ''CREATE_IN_PROGRESS'', r2, None)] t) = None
   \<and> fst (waitForActive name
        [Tick (Some ''CREATE_PENDING'', r1, None),
         Tick (Some ''CREATE_IN_PROGRESS'', r2, None),
         Tick (Some ''ACTIVE'', r3, None)] t) = Some (Return None)
   \<and> polls (snd (waitForActive name
        [Tick (Some ''CREATE_PENDING'', r1, None),
         Tick (Some ''CREATE_IN_PROGRESS'', r2, None),
         Tick (Some ''ACTIVE'', r3, None)] t)) = polls t + 3"
proof -
  have iff: "fst (waitForActive name evs t) = Some (Return None) \<longleftrightarrow>
      (\<exists>pre e rest. evs = pre @ e # rest \<and> list_all creating pre
                     \<and> (reports_ACTIVE e \<or> e = CtxDone))"
    using waitForActive_success_cases [of name evs t] waitForActive_success_intro [of _ _ name _ t]
    by blast
  let ?two = "[Tick (Some ''CREATE_PENDING'', r1, None),
               Tick (Some ''CREATE_IN_PROGRESS'', r2, None)]"
  let ?three = "[Tick (Some ''CREATE_PENDING'', r1, None),
                 Tick (Some ''CREATE_IN_PROGRESS'', r2, None),
                 Tick (Some ''ACTIVE'', r3, None)]"
  have two: "fst (waitForActive name ?two t) = None"
    by (simp only: waitForActive_blocked_iff) (simp add: HasPrefix_def)
  have "waitForActive name (?two @ [Tick (Some ''ACTIVE'', r3, None)]) t
      = waitForActive name [Tick (Some ''ACTIVE'', r3, None)] (snd (waitForActive name ?two t))"
    using two by (rule waitForActive_append)
  then have three: "waitForActive name ?three t
      = waitForActive name [Tick (Some ''ACTIVE'', r3, None)] (snd (waitForActive name ?two t))"
    by (simp only: append_Cons append_Nil)
  have res: "fst (waitForActive name ?three t) = Some (Return None)"
    unfolding three by (simp add: Let_def)
  have "polls (snd (waitForActive name ?two t)) = polls t + 2"
    using waitForActive_polls [OF two] by simp
  then have cnt: "polls (snd (waitForActive name ?three t)) = polls t + 3"
    unfolding three by (simp add: Let_def)
  from iff two res cnt show ?thesis by blast
qed

text \<open>
  The three polls of the scenario, and a run that ends by cancellation after one poll.
\<close>

theorem waitForActive_success_iff_witness:
  "fst (waitForActive ''dataset-import-job''
        [Tick (Some ''CREATE_PENDING'', None, None),
         Tick (Some ''CREATE_IN_PROGRESS'', Some 7, None),
         Tick (Some ''ACTIVE'', Some 0, None)] t0) = Some (Return None)
   \<and> polls (snd (waitForActive ''dataset-import-job''
        [Tick (Some ''CREATE_PENDING'', None, None),
         Tick (Some ''CREATE_IN_PROGRESS'', Some 7, None),
         Tick (Some ''ACTIVE'', Some 0, None)] t0)) = 3
   \<and> fst (waitForActive ''dataset-import-job''
        [Tick (Some ''CREATE_PENDING'', None, None), CtxDone] t0) = Some (Return None)"
proof -
  note inst = waitForActive_success_iff
    [of "''dataset-import-job''" "[Tick (Some ''CREATE_PENDING'', None, None), CtxDone]" t0
        None "Some 7" "Some 0"]
  have "[Tick (Some ''CREATE_PENDING'', None, None), CtxDone]
          = [Tick (Some ''CREATE_PENDING'', None, None)] @ CtxDone # []
        \<and> list_all creating [Tick (Some ''CREATE_PENDING'', None, None)]
        \<and> (reports_ACTIVE CtxDone \<or> (CtxDone :: active_poll event) = CtxDone)"
    by (simp add: HasPrefix_def)
  then have "\<exists>pre e rest. [Tick (Some ''CREATE_PENDING'', None, None), CtxDone] = pre @ e # rest
        \<and> list_all creating pre \<and> (reports_ACTIVE e \<or> e = (CtxDone :: active_poll event))"
    by blast
  with inst have cancelled: "fst (waitForActive ''dataset-import-job''
        [Tick (Some ''CREATE_PENDING'', None, None), CtxDone] t0) = Some (Return None)"
    by blast
  have "polls t0 + 3 = 3" by (simp add: t0_def)
  with inst cancelled show ?thesis by presburger
qed

text \<open>
  Without the cancellation the equivalence fails: here the waiter returns \<open>nil\<close> and no
  poll has reported \<open>ACTIVE\<close>.
\<close>

theorem waitForActive_success_without_ACTIVE:
  "fst (waitForActive ''predictor''
         [Tick (Some ''CREATE_IN_PROGRESS'', Some 42, None), CtxDone] t0) = Some (Return None)
   \<and> \<not> list_ex reports_ACTIVE [Tick (Some ''CREATE_IN_PROGRESS'', Some 42, None), CtxDone]"
  by (simp add: Let_def HasPrefix_def)

text \<open>
  C6. When the active-state waiter is still polling (it has received \<open>pre\<close> and not
  returned) and the next poll reports \<open>CREATE_FAILED\<close>, it returns the error
  \<open>creating is failed\<close>.
\<close>

theorem waitForActive_CREATE_FAILED:
  assumes "fst (waitForActive name pre t) = None"
  shows "fst (waitForActive name (pre @ Tick (Some ''CREATE_FAILED'', remainingMin, None) # rest) t)
           = Some (Return (Some (errorString ''creating is failed'')))"
  using assms by (simp add: waitForActive_append Let_def HasPrefix_def)

text \<open>A forecast that fails at the second poll; the later \<open>ACTIVE\<close> is never read.\<close>

theorem waitForActive_CREATE_FAILED_witness:
  "fst (waitForActive ''forecast'' [Tick (Some ''CREATE_IN_PROGRESS'', Some 12, None)] t0) = None
   \<and> fst (waitForActive ''forecast''
        ([Tick (Some ''CREATE_IN_PROGRESS'', Some 12, None)]
           @ Tick (Some ''CREATE_FAILED'', None, None) # [Tick (Some ''ACTIVE'', None, None)]) t0)
     = Some (Return (Some (errorString ''creating is failed'')))"
proof -
  have p: "fst (waitForActive ''forecast'' [Tick (Some ''CREATE_IN_PROGRESS'', Some 12, None)] t0) = None"
    by (simp add: Let_def HasPrefix_def)
  from p waitForActive_CREATE_FAILED [OF p, of None "[Tick (Some ''ACTIVE'', None, None)]"]
  show ?thesis by blast
qed

text \<open>
  C7. When the active-state waiter is still polling and the next poll reports a status
  that is not \<open>ACTIVE\<close> and does not start with \<open>CREATE\<close>, it returns the error
  \<open><name> is not creating but <status>\<close>.
\<close>

theorem waitForActive_unexpected_status:
  assumes "fst (waitForActive name pre t) = None"
    and "s \<noteq> ''ACTIVE''" and "\<not> HasPrefix s ''CREATE''"
  shows "fst (waitForActive name (pre @ Tick (Some s, remainingMin, None) # rest) t)
           = Some (Return (Some (errorString (name @ '' is not creating but '' @ s))))"
  using assms by (simp add: waitForActive_append Let_def)

text \<open>The status \<open>SUSPENDED\<close> at the second poll.\<close>

theorem waitForActive_unexpected_status_witness:
  "fst (waitForActive ''forecast'' [Tick (Some ''CREATE_PENDING'', None, None)] t0) = None
   \<and> ''SUSPENDED'' \<noteq> ''ACTIVE'' \<and> \<not> HasPrefix ''SUSPENDED'' ''CREATE''
   \<and> fst (waitForActive ''forecast''
        ([Tick (Some ''CREATE_PENDING'', None, None)] @ Tick (Some ''SUSPENDED'', None, None) # []) t0)
     = Some (Return (Some (errorString ''forecast is not creating but SUSPENDED'')))"
proof -
  have p: "fst (waitForActive ''forecast'' [Tick (Some ''CREATE_PENDING'', None, None)] t0) = None"
    by (simp add: Let_def HasPrefix_def)
  have a: "''SUSPENDED'' \<noteq> ''ACTIVE''" by simp
  have c: "\<not> HasPrefix ''SUSPENDED'' ''CREATE''" by (simp add: HasPrefix_def)
  have "''forecast'' @ '' is not creating but '' @ ''SUSPENDED'' = ''forecast is not creating but SUSPENDED''"
    by simp
  with p a c waitForActive_unexpected_status [OF p a c, of None "[]"]
  show ?thesis by (simp only:) blast
qed

text \<open>
  C8. When the deletion waiter is still polling and the next poll fails with an error that
  is, or wraps, a \<open>ResourceNotFoundException\<close>, it returns \<open>nil\<close>, and that poll was its
  last: it has polled once per round of \<open>pre\<close> and once more, whatever follows.
\<close>

theorem waitForDeleted_not_found:
  assumes "fst (waitForDeleted name pre t) = None" and "As_ResourceNotFound err"
  shows "fst (waitForDeleted name (pre @ Tick (status, Some err) # rest) t) = Some (Return None)
         \<and> polls (snd (waitForDeleted name (pre @ Tick (status, Some err) # rest) t))
             = polls t + length pre + 1"
  using assms waitForDeleted_polls [OF assms(1)]
  by (simp add: waitForDeleted_append Let_def)

text \<open>The resource is gone at the very first poll.\<close>

theorem waitForDeleted_not_found_witness:
  "fst (waitForDeleted ''predictor'' [] t0) = None
   \<and> As_ResourceNotFound (OperationError ''DescribePredictor'' (ResourceNotFoundException ''gone''))
   \<and> fst (waitForDeleted ''predictor''
        ([] @ Tick (None, Some (OperationError ''DescribePredictor'' (ResourceNotFoundException ''gone'')))
            # [Tick (Some ''ACTIVE'', None)]) t0) = Some (Return None)
   \<and> polls (snd (waitForDeleted ''predictor''
        ([] @ Tick (None, Some (OperationError ''DescribePredictor'' (ResourceNotFoundException ''gone'')))
            # [Tick (Some ''ACTIVE'', None)]) t0)) = 1"
proof -
  have p: "fst (waitForDeleted ''predictor'' [] t0) = None" by simp
  have n: "As_ResourceNotFound (OperationError ''DescribePredictor'' (ResourceNotFoundException ''gone''))"
    by simp
  have "polls t0 + length ([] :: deleted_poll event list) + 1 = 1" by (simp add: t0_def)
  with p n waitForDeleted_not_found [OF p n, of None "[Tick (Some ''ACTIVE'', None)]"]
  show ?thesis by (simp only:)
qed

text \<open>
  C9. Every other error is returned as it is: \<open>skipIfAlreadyExists\<close> returns an error of
  the create function that is not an already-exists error, with no handle and no log line;
  the active-state waiter returns any error of a poll; the deletion waiter returns an error
  of a poll that is not a not-found error. Neither waiter polls again.
\<close>

theorem other_errors_returned_unchanged:
  "(\<not> As_ResourceAlreadyExists e1 \<longrightarrow>
      skipIfAlreadyExists f resource name (arn, Some e1) t = (Return (None, Some e1), t))
   \<and> (fst (waitForActive name2 pre2 t2) = None \<longrightarrow>
      fst (waitForActive name2 (pre2 @ Tick (status2, remainingMin, Some e2) # rest2) t2)
        = Some (Return (Some e2))
      \<and> polls (snd (waitForActive name2 (pre2 @ Tick (status2, remainingMin, Some e2) # rest2) t2))
        = polls t2 + length pre2 + 1)
   \<and> (fst (waitForDeleted name3 pre3 t3) = None \<and> \<not> As_ResourceNotFound e3 \<longrightarrow>
      fst (waitForDeleted name3 (pre3 @ Tick (status3, Some e3) # rest3) t3)
        = Some (Return (Some e3))
      \<and> polls (snd (waitForDeleted name3 (pre3 @ Tick (status3, Some e3) # rest3) t3))
        = polls t3 + length pre3 + 1)"
proof -
  have create: "skipIfAlreadyExists f resource name (arn, Some e1) t = (Return (None, Some e1), t)"
    if "\<not> As_ResourceAlreadyExists e1"
    using that by (simp add: skipIfAlreadyExists_def)
  have active: "fst (waitForActive name2 (pre2 @ Tick (status2, remainingMin, Some e2) # rest2) t2)
        = Some (Return (Some e2))
      \<and> polls (snd (waitForActive name2 (pre2 @ Tick (status2, remainingMin, Some e2) # rest2) t2))
        = polls t2 + length pre2 + 1"
    if "fst (waitForActive name2 pre2 t2) = None"
    using that waitForActive_polls [OF that] by (simp add: waitForActive_append Let_def)
  have deleted: "fst (waitForDeleted name3 (pre3 @ Tick (status3, Some e3) # rest3) t3)
        = Some (Return (Some e3))
      \<and> polls (snd (waitForDeleted name3 (pre3 @ Tick (status3, Some e3) # rest3) t3))
        = polls t3 + length pre3 + 1"
    if "fst (waitForDeleted name3 pre3 t3) = None" and "\<not> As_ResourceNotFound e3"
    using that waitForDeleted_polls [OF that(1)] by (simp add: waitForDeleted_append Let_def)
  from create active deleted show ?thesis by blast
qed

text \<open>
  A quota error on create, a not-found error while waiting for \<open>ACTIVE\<close> (not recovered
  there) and a throttling error while waiting for the deletion.
\<close>

theorem other_errors_returned_unchanged_witness:
  "\<not> As_ResourceAlreadyExists (OperationError ''CreatePredictor'' (APIError ''LimitExceededException'' ''quota''))
   \<and> skipIfAlreadyExists
        \<lparr>region = ''us-east-1'',
           caller = Some \<lparr>Account = Some ''111122223333'', Arn = None, UserId = None\<rparr>\<rparr>
        ''predictor'' ''p1''
        (None, Some (OperationError ''CreatePredictor'' (APIError ''LimitExceededException'' ''quota''))) t0
      = (Return (None, Some (OperationError ''CreatePredictor'' (APIError ''LimitExceededException'' ''quota''))), t0)
   \<and> fst (waitForActive ''predictor'' [Tick (Some ''CREATE_PENDING'', None, None)] t0) = None
   \<and> fst (waitForActive ''predictor''
        ([Tick (Some ''CREATE_PENDING'', None, None)]
          @ Tick (None, None, Some (ResourceNotFoundException ''gone''))
          # [Tick (Some ''ACTIVE'', None, None)]) t0)
      = Some (Return (Some (ResourceNotFoundException ''gone'')))
   \<and> polls (snd (waitForActive ''predictor''
        ([Tick (Some ''CREATE_PENDING'', None, None)]
          @ Tick (None, None, Some (ResourceNotFoundException ''gone''))
          # [Tick (Some ''ACTIVE'', None, None)]) t0)) = 2
   \<and> fst (waitForDeleted ''predictor'' [Tick (Some ''DELETE_PENDING'', None)] t0) = None
   \<and> \<not> As_ResourceNotFound (APIError ''ThrottlingException'' ''slow down'')
   \<and> fst (waitForDeleted ''predictor''
        ([Tick (Some ''DELETE_PENDING'', None)]
          @ Tick (None, Some (APIError ''ThrottlingException'' ''slow down''))
          # [Tick (None, Some (ResourceNotFoundException ''gone''))]) t0)
      = Some (Return (Some (APIError ''ThrottlingException'' ''slow down'')))
   \<and> polls (snd (waitForDeleted ''predictor''
        ([Tick (Some ''DELETE_PENDING'', None)]
          @ Tick (None, Some (APIError ''ThrottlingException'' ''slow down''))
          # [Tick (None, Some (ResourceNotFoundException ''gone''))]) t0)) = 2"
proof -
  have h1: "\<not> As_ResourceAlreadyExists
              (OperationError ''CreatePredictor'' (APIError ''LimitExceededException'' ''quota''))"
    by simp
  have h2: "fst (waitForActive ''predictor'' [Tick (Some ''CREATE_PENDING'', None, None)] t0) = None"
    by (simp add: Let_def HasPrefix_def)
  have h3: "fst (waitForDeleted ''predictor'' [Tick (Some ''DELETE_PENDING'', None)] t0) = None"
    by (simp add: Let_def HasPrefix_def)
  have h4: "\<not> As_ResourceNotFound (APIError ''ThrottlingException'' ''slow down'')"
    by simp
  have n2: "polls t0 + length [Tick (Some ''CREATE_PENDING'', None, None) :: active_poll event] + 1 = 2"
    by (simp add: t0_def)
  have n3: "polls t0 + length [Tick (Some ''DELETE_PENDING'', None) :: deleted_poll event] + 1 = 2"
    by (simp add: t0_def)
  note inst = other_errors_returned_unchanged
      [of "OperationError ''CreatePredictor'' (APIError ''LimitExceededException'' ''quota'')"
          "\<lparr>region = ''us-east-1'',
             caller = Some \<lparr>Account = Some ''111122223333'', Arn = None, UserId = None\<rparr>\<rparr>"
          "''predictor''" "''p1''" None t0
          "''predictor''" "[Tick (Some ''CREATE_PENDING'', None, None)]" t0
          None None "ResourceNotFoundException ''gone''" "[Tick (Some ''ACTIVE'', None, None)]"
          "''predictor''" "[Tick (Some ''DELETE_PENDING'', None)]" t0
          "APIError ''ThrottlingException'' ''slow down''" None
          "[Tick (None, Some (ResourceNotFoundException ''gone''))]"]
  from inst h1 have c1: "skipIfAlreadyExists
        \<lparr>region = ''us-east-1'',
           caller = Some \<lparr>Account = Some ''111122223333'', Arn = None, UserId = None\<rparr>\<rparr>
        ''predictor'' ''p1''
        (None, Some (OperationError ''CreatePredictor'' (APIError ''LimitExceededException'' ''quota''))) t0
      = (Return (None, Some (OperationError ''CreatePredictor'' (APIError ''LimitExceededException'' ''quota''))), t0)"
    by blast
  from inst h2 have c2: "fst (waitForActive ''predictor''
        ([Tick (Some ''CREATE_PENDING'', None, None)]
          @ Tick (None, None, Some (ResourceNotFoundException ''gone''))
          # [Tick (Some ''ACTIVE'', None, None)]) t0)
      = Some (Return (Some (ResourceNotFoundException ''gone'')))
   \<and> polls (snd (waitForActive ''predictor''
        ([Tick (Some ''CREATE_PENDING'', None, None)]
          @ Tick (None, None, Some (ResourceNotFoundException ''gone''))
          # [Tick (Some ''ACTIVE'', None, None)]) t0))
      = polls t0 + length [Tick (Some ''CREATE_PENDING'', None, None) :: active_poll event] + 1"
    by blast
  from inst h3 h4 have c3: "fst (waitForDeleted ''predictor''
        ([Tick (Some ''DELETE_PENDING'', None)]
          @ Tick (None, Some (APIError ''ThrottlingException'' ''slow down''))
          # [Tick (None, Some (ResourceNotFoundException ''gone''))]) t0)
      = Some (Return (Some (APIError ''ThrottlingException'' ''slow down'')))
   \<and> polls (snd (waitForDeleted ''predictor''
        ([Tick (Some ''DELETE_PENDING'', None)]
          @ Tick (None, Some (APIError ''ThrottlingException'' ''slow down''))
          # [Tick (None, Some (ResourceNotFoundException ''gone''))]) t0))
      = polls t0 + length [Tick (Some ''DELETE_PENDING'', None) :: deleted_poll event] + 1"
    by blast
  from h1 h2 h3 h4 c1 c2 [unfolded n2] c3 [unfolded n3] show ?thesis by blast
qed

text \<open>
  C10. If every poll returns a status whenever it returns no error, neither waiter
  dereferences a \<open>nil\<close> status. The read itself is unguarded: a poll that returns neither
  a status nor an error while the waiter is still polling makes it panic.
\<close>

theorem waiters_nil_status:
  "(list_all status_given evs \<longrightarrow> fst (waitForActive name evs t) \<noteq> Some Panic)
   \<and> (list_all status_given_d evs' \<longrightarrow> fst (waitForDeleted name' evs' t') \<noteq> Some Panic)
   \<and> (fst (waitForActive name pre t) = None \<longrightarrow>
        fst (waitForActive name (pre @ Tick (None, remainingMin, None) # rest) t) = Some Panic)
   \<and> (fst (waitForDeleted name' pre' t') = None \<longrightarrow>
        fst (waitForDeleted name' (pre' @ Tick (None, None) # rest') t') = Some Panic)"
  by (simp add: waitForActive_no_Panic waitForDeleted_no_Panic waitForActive_append
        waitForDeleted_append Let_def)

text \<open>
  Polls that keep the precondition, and a first poll that returns \<open>(nil, nil)\<close>.
\<close>

theorem waiters_nil_status_witness:
  "list_all status_given
     [Tick (Some ''CREATE_PENDING'', None, None), Tick (None, None, Some (APIError ''Throttling'' ''x''))]
   \<and> fst (waitForActive ''forecast''
        [Tick (Some ''CREATE_PENDING'', None, None), Tick (None, None, Some (APIError ''Throttling'' ''x''))]
        t0) \<noteq> Some Panic
   \<and> list_all status_given_d [Tick (Some ''DELETE_PENDING'', None), CtxDone]
   \<and> fst (waitForDeleted ''forecast'' [Tick (Some ''DELETE_PENDING'', None), CtxDone] t0) \<noteq> Some Panic
   \<and> fst (waitForActive ''forecast'' [] t0) = None
   \<and> fst (waitForActive ''forecast'' ([] @ Tick (None, None, None) # []) t0) = Some Panic
   \<and> fst (waitForDeleted ''forecast'' [] t0) = None
   \<and> fst (waitForDeleted ''forecast'' ([] @ Tick (None, None) # []) t0) = Some Panic"
proof -
  have a: "list_all status_given
     [Tick (Some ''CREATE_PENDING'', None, None), Tick (None, None, Some (APIError ''Throttling'' ''x''))]"
    by simp
  have d: "list_all status_given_d [Tick (Some ''DELETE_PENDING'', None), CtxDone]"
    by simp
  have pa: "fst (waitForActive ''forecast'' [] t0) = None" by simp
  have pd: "fst (waitForDeleted ''forecast'' [] t0) = None" by simp
  from a d
    waiters_nil_status
      [of "[Tick (Some ''CREATE_PENDING'', None, None), Tick (None, None, Some (APIError ''Throttling'' ''x''))]"
          "''forecast''" t0 "[Tick (Some ''DELETE_PENDING'', None), CtxDone]" "''forecast''" t0]
  have guarded: "fst (waitForActive ''forecast''
        [Tick (Some ''CREATE_PENDING'', None, None), Tick (None, None, Some (APIError ''Throttling'' ''x''))]
        t0) \<noteq> Some Panic
     \<and> fst (waitForDeleted ''forecast'' [Tick (Some ''DELETE_PENDING'', None), CtxDone] t0) \<noteq> Some Panic"
    by blast
  from pa pd
    waiters_nil_status [of "[]" "''forecast''" t0 "[]" "''forecast''" t0 "[]" None "[]" "[]" "[]"]
  have unguarded: "fst (waitForActive ''forecast'' ([] @ Tick (None, None, None) # []) t0) = Some Panic
     \<and> fst (waitForDeleted ''forecast'' ([] @ Tick (None, None) # []) t0) = Some Panic"
    by blast
  from a d pa pd guarded unguarded show ?thesis by blast
qed

end
